theory Spec2Isabelle
  imports Complex_Main
begin

section \<open>Data model\<close>

text \<open>
  The stepping and event callbacks of the optical simulation, embedded as functions on
  explicit state. Conventions of the embedding:
  \<^item> \<open>G4int\<close> counters are integers; a counter is only ever incremented by one per call,
    and signed overflow (undefined in C++) is outside the model: the last section bounds
    the counter that matters by the number of calls made in the event;
  \<^item> \<open>float\<close>, \<open>G4float\<close> and \<open>G4double\<close> quantities are real numbers: the arithmetic
    is read exactly, the rounding of a narrowing conversion is not represented;
  \<^item> text written to \<open>G4cout\<close> is not part of the state, so \<open>VerbosityLevel\<close> is kept
    as a field and the guarded print statements have no counterpart;
  \<^item> a null pointer dereference and an integer division by zero are results of their
    own (\<open>fault\<close>), never a default value.
\<close>

datatype fault = NullPointer | DivisionByZero

text \<open>CLHEP units used by the callbacks (internal units: MeV, mm, ns).\<close>

definition MeV :: real where "MeV = 1"
definition keV :: real where "keV = 1 / 1000"
definition eV :: real where "eV = 1 / 1000000"
definition mm :: real where "mm = 1"
definition ns :: real where "ns = 1"
definition deg :: real where "deg = pi / 180"

subsection \<open>Toolkit enumerations\<close>

text \<open>
  \<open>G4OpBoundaryProcessStatus\<close>: the values the classifier's switch names, the other
  plain values of the enumeration, and \<open>LUTStatus\<close> for the look-up-table reflection
  kinds, all of which the switch sends to \<open>default\<close>.
\<close>

datatype G4OpBoundaryProcessStatus =
    Undefined | Transmission | FresnelRefraction | FresnelReflection
  | TotalInternalReflection | LambertianReflection | LobeReflection | SpikeReflection
  | BackScattering | Absorption | Detection | NotAtBoundary | SameMaterial
  | StepTooSmall | NoRINDEX | LUTStatus nat

datatype G4StepStatus =
    fWorldBoundary | fGeomBoundary | fAtRestDoItProc | fAlongStepDoItProc
  | fPostStepDoItProc | fUserDefinedLimit | fExclusivelyForcedProc | fUndefined

datatype G4TrackStatus =
    fAlive | fStopButAlive | fStopAndKill | fKillTrackAndSecondaries | fSuspend
  | fPostponeToNextEvent

subsection \<open>The step handed over by the transport engine\<close>

text \<open>
  One field per accessor the callbacks read on \<open>aStep\<close>, its two step points and its
  track. \<open>CreatorProcess\<close> is \<open>None\<close> for a primary track (the toolkit returns a null
  pointer there). \<open>ProcessList\<close> is the process list of the particle: each process
  with its name and, for the boundary process, its current status.
\<close>

record G4Step =
  ParticleName :: string
  PDGEncoding :: int
  ParentID :: int
  TrackID :: int
  CurrentStepNumber :: int
  ProcessDefinedStep :: string
  CreatorProcess :: "string option"
  ProcessList :: "(string \<times> G4OpBoundaryProcessStatus) list"
  PostStepStatus :: G4StepStatus
  PreKineticEnergy :: real
  PostKineticEnergy :: real
  TotalEnergyDeposit :: real
  TotalEnergy :: real
  StepLength :: real
  PostGlobalTime :: real
  TrackLength :: real
  PrePosition :: "real \<times> real \<times> real"
  PostPosition :: "real \<times> real \<times> real"
  PreMomentumDirection :: "real \<times> real \<times> real"
  PostMomentumDirection :: "real \<times> real \<times> real"
  PreVolumeName :: string
  PostVolumeName :: string
  NextVolumeName :: string
  TrackStatus :: G4TrackStatus

subsection \<open>Per-event statistics (OpticalSimulationEventAction.hh)\<close>

text \<open>\<open>struct RunTallyInput\<close>; the fields \<open>x, xp, ..., energy\<close> carry the prefix \<open>in_\<close>.\<close>

record RunTallyInput =
  in_x :: real
  in_xp :: real
  in_y :: real
  in_yp :: real
  in_z :: real
  in_zp :: real
  in_energy :: real

record RunTallyOptical =
  IncidentE :: real
  DepositTotal :: real
  DepositZnS :: real
  DepositSc :: real
  GeneratedTotal :: int
  GeneratedZnS :: int
  ScintillationZnS :: int
  CerenkovZnS :: int
  GeneratedSc :: int
  ScintillationSc :: int
  CerenkovSc :: int
  BulkAbsTotal :: int
  BulkAbsZnS :: int
  BulkAbsSc :: int
  Absorbed :: int
  Escaped :: int
  Failed :: int
  Killed :: int
  Detected :: int
  ExitLightPositionX :: "real list"
  ExitLightPositionY :: "real list"
  ExitLightPositionZ :: "real list"
  DetectorPositionX :: "real list"
  DetectorPositionY :: "real list"
  DetectorPositionZ :: "real list"
  BirthWavelength :: "real list"
  BirthWavelengthDetected :: "real list"
  Time :: "real list"
  Rayleigh :: "int list"
  Total_Reflections :: "int list"
  Wrap_Reflections :: "int list"
  TotalLength :: "real list"
  Angle_creation :: "real list"
  Angle_detection :: "real list"
  FinalState :: "int list"

record RunTallySc =
  x_entrance :: "real list"
  y_entrance :: "real list"
  z_entrance :: "real list"
  parentID :: "int list"
  particleID :: "int list"
  energy :: "real list"
  deposited_energy :: real
  deposited_energy_event :: real
  total_deposited_energy :: "real list"
  flag :: bool

text \<open>The tallies owned by one \<open>OpticalSimulationEventAction\<close>.\<close>

record EventAction =
  StatsInput :: RunTallyInput
  StatsZnS :: RunTallySc
  StatsScintillator :: RunTallySc
  StatsOptical :: RunTallyOptical

text \<open>Value-initialisation \<open>= {}\<close> of each structure: zeros, empty vectors, \<open>false\<close>.\<close>

definition RunTallyInput_init :: RunTallyInput where
  "RunTallyInput_init =
     \<lparr>in_x = 0, in_xp = 0, in_y = 0, in_yp = 0, in_z = 0, in_zp = 0, in_energy = 0\<rparr>"

definition RunTallyOptical_init :: RunTallyOptical where
  "RunTallyOptical_init =
     \<lparr>IncidentE = 0, DepositTotal = 0, DepositZnS = 0, DepositSc = 0,
      GeneratedTotal = 0, GeneratedZnS = 0, ScintillationZnS = 0, CerenkovZnS = 0,
      GeneratedSc = 0, ScintillationSc = 0, CerenkovSc = 0, BulkAbsTotal = 0,
      BulkAbsZnS = 0, BulkAbsSc = 0, Absorbed = 0, Escaped = 0, Failed = 0,
      Killed = 0, Detected = 0,
      ExitLightPositionX = [], ExitLightPositionY = [], ExitLightPositionZ = [],
      DetectorPositionX = [], DetectorPositionY = [], DetectorPositionZ = [],
      BirthWavelength = [], BirthWavelengthDetected = [], Time = [], Rayleigh = [],
      Total_Reflections = [], Wrap_Reflections = [], TotalLength = [],
      Angle_creation = [], Angle_detection = [], FinalState = []\<rparr>"

definition RunTallySc_init :: RunTallySc where
  "RunTallySc_init =
     \<lparr>x_entrance = [], y_entrance = [], z_entrance = [], parentID = [],
      particleID = [], energy = [], deposited_energy = 0, deposited_energy_event = 0,
      total_deposited_energy = [], flag = False\<rparr>"

section \<open>Methods of the event action\<close>

definition upd_optical :: "(RunTallyOptical \<Rightarrow> RunTallyOptical) \<Rightarrow> EventAction \<Rightarrow> EventAction" where
  "upd_optical f ev = ev\<lparr>StatsOptical := f (StatsOptical ev)\<rparr>"

definition upd_input :: "(RunTallyInput \<Rightarrow> RunTallyInput) \<Rightarrow> EventAction \<Rightarrow> EventAction" where
  "upd_input f ev = ev\<lparr>StatsInput := f (StatsInput ev)\<rparr>"

definition SetXStart :: "real \<Rightarrow> EventAction \<Rightarrow> EventAction" where
  "SetXStart d = upd_input (\<lambda>s. s\<lparr>in_x := d\<rparr>)"
definition SetXpStart :: "real \<Rightarrow> EventAction \<Rightarrow> EventAction" where
  "SetXpStart d = upd_input (\<lambda>s. s\<lparr>in_xp := d\<rparr>)"
definition SetYStart :: "real \<Rightarrow> EventAction \<Rightarrow> EventAction" where
  "SetYStart d = upd_input (\<lambda>s. s\<lparr>in_y := d\<rparr>)"
definition SetYpStart :: "real \<Rightarrow> EventAction \<Rightarrow> EventAction" where
  "SetYpStart d = upd_input (\<lambda>s. s\<lparr>in_yp := d\<rparr>)"
definition SetZStart :: "real \<Rightarrow> EventAction \<Rightarrow> EventAction" where
  "SetZStart d = upd_input (\<lambda>s. s\<lparr>in_z := d\<rparr>)"
definition SetZpStart :: "real \<Rightarrow> EventAction \<Rightarrow> EventAction" where
  "SetZpStart d = upd_input (\<lambda>s. s\<lparr>in_zp := d\<rparr>)"
definition SetEnergyStart :: "real \<Rightarrow> EventAction \<Rightarrow> EventAction" where
  "SetEnergyStart d = upd_input (\<lambda>s. s\<lparr>in_energy := d\<rparr>)"

definition CountCerenkovZnS :: "EventAction \<Rightarrow> EventAction" where
  "CountCerenkovZnS = upd_optical (\<lambda>s. s\<lparr>CerenkovZnS := CerenkovZnS s + 1\<rparr>)"
definition CountCerenkovSc :: "EventAction \<Rightarrow> EventAction" where
  "CountCerenkovSc = upd_optical (\<lambda>s. s\<lparr>CerenkovSc := CerenkovSc s + 1\<rparr>)"
definition CountScintillationZnS :: "EventAction \<Rightarrow> EventAction" where
  "CountScintillationZnS = upd_optical (\<lambda>s. s\<lparr>ScintillationZnS := ScintillationZnS s + 1\<rparr>)"
definition CountScintillationSc :: "EventAction \<Rightarrow> EventAction" where
  "CountScintillationSc = upd_optical (\<lambda>s. s\<lparr>ScintillationSc := ScintillationSc s + 1\<rparr>)"
definition CountKilled :: "EventAction \<Rightarrow> EventAction" where
  "CountKilled = upd_optical (\<lambda>s. s\<lparr>Killed := Killed s + 1\<rparr>)"
definition CountDetected :: "EventAction \<Rightarrow> EventAction" where
  "CountDetected = upd_optical (\<lambda>s. s\<lparr>Detected := Detected s + 1\<rparr>)"
definition CountAbsorbed :: "EventAction \<Rightarrow> EventAction" where
  "CountAbsorbed = upd_optical (\<lambda>s. s\<lparr>Absorbed := Absorbed s + 1\<rparr>)"
definition CountBulkAbsSc :: "EventAction \<Rightarrow> EventAction" where
  "CountBulkAbsSc = upd_optical (\<lambda>s. s\<lparr>BulkAbsSc := BulkAbsSc s + 1\<rparr>)"
definition CountBulkAbsZnS :: "EventAction \<Rightarrow> EventAction" where
  "CountBulkAbsZnS = upd_optical (\<lambda>s. s\<lparr>BulkAbsZnS := BulkAbsZnS s + 1\<rparr>)"
definition CountEscaped :: "EventAction \<Rightarrow> EventAction" where
  "CountEscaped = upd_optical (\<lambda>s. s\<lparr>Escaped := Escaped s + 1\<rparr>)"
definition CountFailed :: "EventAction \<Rightarrow> EventAction" where
  "CountFailed = upd_optical (\<lambda>s. s\<lparr>Failed := Failed s + 1\<rparr>)"

definition FillPhotonDetectorPositionX :: "real \<Rightarrow> EventAction \<Rightarrow> EventAction" where
  "FillPhotonDetectorPositionX e =
     upd_optical (\<lambda>s. s\<lparr>DetectorPositionX := DetectorPositionX s @ [e]\<rparr>)"
definition FillPhotonDetectorPositionY :: "real \<Rightarrow> EventAction \<Rightarrow> EventAction" where
  "FillPhotonDetectorPositionY e =
     upd_optical (\<lambda>s. s\<lparr>DetectorPositionY := DetectorPositionY s @ [e]\<rparr>)"
definition FillPhotonDetectorPositionZ :: "real \<Rightarrow> EventAction \<Rightarrow> EventAction" where
  "FillPhotonDetectorPositionZ e =
     upd_optical (\<lambda>s. s\<lparr>DetectorPositionZ := DetectorPositionZ s @ [e]\<rparr>)"
definition FillBirthWavelength :: "real \<Rightarrow> EventAction \<Rightarrow> EventAction" where
  "FillBirthWavelength e =
     upd_optical (\<lambda>s. s\<lparr>BirthWavelength := BirthWavelength s @ [e]\<rparr>)"
definition FillBirthWavelengthDetected :: "real \<Rightarrow> EventAction \<Rightarrow> EventAction" where
  "FillBirthWavelengthDetected e =
     upd_optical (\<lambda>s. s\<lparr>BirthWavelengthDetected := BirthWavelengthDetected s @ [e]\<rparr>)"
definition FillPhotonTime :: "real \<Rightarrow> EventAction \<Rightarrow> EventAction" where
  "FillPhotonTime e = upd_optical (\<lambda>s. s\<lparr>Time := Time s @ [e]\<rparr>)"
definition FillPhotonTotalLength :: "real \<Rightarrow> EventAction \<Rightarrow> EventAction" where
  "FillPhotonTotalLength e = upd_optical (\<lambda>s. s\<lparr>TotalLength := TotalLength s @ [e]\<rparr>)"
definition FillFiberAngleCreation :: "real \<Rightarrow> EventAction \<Rightarrow> EventAction" where
  "FillFiberAngleCreation e =
     upd_optical (\<lambda>s. s\<lparr>Angle_creation := Angle_creation s @ [e]\<rparr>)"

text \<open>Methods of \<open>struct RunTallySc\<close>.\<close>

definition AddXEntrance :: "real \<Rightarrow> RunTallySc \<Rightarrow> RunTallySc" where
  "AddXEntrance d t = t\<lparr>x_entrance := x_entrance t @ [d]\<rparr>"
definition AddYEntrance :: "real \<Rightarrow> RunTallySc \<Rightarrow> RunTallySc" where
  "AddYEntrance d t = t\<lparr>y_entrance := y_entrance t @ [d]\<rparr>"
definition AddZEntrance :: "real \<Rightarrow> RunTallySc \<Rightarrow> RunTallySc" where
  "AddZEntrance d t = t\<lparr>z_entrance := z_entrance t @ [d]\<rparr>"
definition AddParentID :: "int \<Rightarrow> RunTallySc \<Rightarrow> RunTallySc" where
  "AddParentID d t = t\<lparr>parentID := parentID t @ [d]\<rparr>"
definition AddParticleID :: "int \<Rightarrow> RunTallySc \<Rightarrow> RunTallySc" where
  "AddParticleID d t = t\<lparr>particleID := particleID t @ [d]\<rparr>"
definition AddEnergy :: "real \<Rightarrow> RunTallySc \<Rightarrow> RunTallySc" where
  "AddEnergy d t = t\<lparr>energy := energy t @ [d]\<rparr>"
definition AddDepositedEnergyEvent :: "real \<Rightarrow> RunTallySc \<Rightarrow> RunTallySc" where
  "AddDepositedEnergyEvent d t = t\<lparr>deposited_energy_event := deposited_energy_event t + d\<rparr>"
definition AddDepositedEnergy :: "real \<Rightarrow> RunTallySc \<Rightarrow> RunTallySc" where
  "AddDepositedEnergy d t = t\<lparr>deposited_energy := deposited_energy t + d\<rparr>"
definition AddTotalDepositedEnergy :: "real \<Rightarrow> RunTallySc \<Rightarrow> RunTallySc" where
  "AddTotalDepositedEnergy d t = t\<lparr>total_deposited_energy := total_deposited_energy t @ [d]\<rparr>"
definition ActivateFlag :: "RunTallySc \<Rightarrow> RunTallySc" where
  "ActivateFlag t = t\<lparr>flag := True\<rparr>"
definition ResetFlag :: "RunTallySc \<Rightarrow> RunTallySc" where
  "ResetFlag t = t\<lparr>flag := False\<rparr>"
definition ResetDepositedEnergy :: "RunTallySc \<Rightarrow> RunTallySc" where
  "ResetDepositedEnergy t = t\<lparr>deposited_energy := 0\<rparr>"
definition GetDepositedEnergy :: "RunTallySc \<Rightarrow> real" where
  "GetDepositedEnergy t = deposited_energy t"

section \<open>The stepping action\<close>

text \<open>\<open>struct StepPoint\<close>; the fields \<open>x, y, z, px, py, pz\<close> carry the prefix \<open>sp_\<close>.\<close>

record StepPoint =
  sp_x :: real
  sp_y :: real
  sp_z :: real
  sp_px :: real
  sp_py :: real
  sp_pz :: real

text \<open>
  The data members of \<open>OpticalSimulationSteppingAction\<close>. The members \<open>particleID\<close>,
  \<open>parentID\<close>, \<open>energy\<close> and \<open>time\<close> carry the prefix \<open>m_\<close> (the tally has fields of the
  same names). \<open>theTrack\<close> points to the track of the current step, whose data are
  fields of \<open>G4Step\<close> here.
\<close>

record SteppingAction =
  TrackingStatus :: bool
  particleName :: string
  m_particleID :: int
  m_parentID :: int
  trackID :: int
  stepNo :: int
  endproc :: string
  volumeNamePreStep :: string
  volumeNamePostStep :: string
  angle :: real
  m_time :: real
  m_energy :: real
  energy_post :: real
  energyDeposited :: real
  preStep :: StepPoint
  postStep :: StepPoint
  VerbosityLevel :: int
  PhotonTrackStatus :: bool

definition SetInputInformations :: "SteppingAction \<Rightarrow> EventAction \<Rightarrow> EventAction" where
  "SetInputInformations sa evtac =
     (let evtac = SetXStart (sp_x (preStep sa)) evtac;
          evtac = SetXpStart (sp_px (preStep sa)) evtac;
          evtac = SetYStart (sp_y (preStep sa)) evtac;
          evtac = SetYpStart (sp_py (preStep sa)) evtac;
          evtac = SetZStart (sp_z (preStep sa)) evtac;
          evtac = SetZpStart (sp_pz (preStep sa)) evtac
      in SetEnergyStart (m_energy sa) evtac)"

text \<open>
  The search loop of \<open>CheckBoundaryStatus\<close>: the first process of the list named
  \<open>OpBoundary\<close>, or the initial \<open>NULL\<close>.
\<close>

definition find_boundary ::
  "(string \<times> G4OpBoundaryProcessStatus) list \<Rightarrow> G4OpBoundaryProcessStatus option" where
  "find_boundary pv = map_option snd (find (\<lambda>p. fst p = ''OpBoundary'') pv)"

text \<open>
  \<open>CheckBoundaryStatus\<close>. Three statements in sequence: the test of \<open>endproc\<close> for bulk
  absorption, the (empty) Rayleigh test, and the switch on the boundary status, which
  runs on a geometry-boundary step. \<open>boundary->GetStatus()\<close> comes first and
  dereferences the result of the search.
\<close>

definition CheckBoundaryStatus ::
  "SteppingAction \<Rightarrow> G4Step \<Rightarrow> EventAction \<Rightarrow> fault + EventAction" where
  "CheckBoundaryStatus sa aStep evtac =
     (case find_boundary (ProcessList aStep) of
        None \<Rightarrow> Inl NullPointer
      | Some boundaryStatus \<Rightarrow>
          let evtac =
                (if endproc sa = ''OpAbsorption''
                 then (if PreVolumeName aStep = ''ZnS''
                       then CountBulkAbsZnS evtac else CountBulkAbsSc evtac)
                 else evtac);
              evtac =
                (if PostStepStatus aStep = fGeomBoundary
                 then (case boundaryStatus of
                         Detection \<Rightarrow>
                           let evtac = CountDetected evtac;
                               evtac = FillPhotonDetectorPositionX (sp_x (postStep sa)) evtac;
                               evtac = FillPhotonDetectorPositionY (sp_y (postStep sa)) evtac;
                               evtac = FillPhotonDetectorPositionZ (sp_z (postStep sa)) evtac;
                               evtac = FillBirthWavelengthDetected
                                         (1240 / (TotalEnergy aStep / eV)) evtac;
                               evtac = FillPhotonTime (PostGlobalTime aStep / ns) evtac
                           in FillPhotonTotalLength (TrackLength aStep) evtac
                       | Absorption \<Rightarrow>
                           if NextVolumeName aStep = ''Photocathode''
                           then CountFailed evtac else CountAbsorbed evtac
                       | NoRINDEX \<Rightarrow> CountEscaped evtac
                       | _ \<Rightarrow> evtac)
                 else evtac)
          in Inr evtac)"

definition CountScintillation :: "G4Step \<Rightarrow> EventAction \<Rightarrow> EventAction" where
  "CountScintillation aStep evtac =
     (let evtac = (if PreVolumeName aStep = ''ZnS'' then CountScintillationZnS evtac else evtac)
      in if PreVolumeName aStep = ''Scintillator'' then CountScintillationSc evtac else evtac)"

definition CountCerenkov :: "G4Step \<Rightarrow> EventAction \<Rightarrow> EventAction" where
  "CountCerenkov aStep evtac =
     (let evtac = (if PreVolumeName aStep = ''ZnS'' then CountCerenkovZnS evtac else evtac)
      in if PreVolumeName aStep = ''Scintillator'' then CountCerenkovSc evtac else evtac)"

definition SetPhotonBirthInformation ::
  "SteppingAction \<Rightarrow> G4Step \<Rightarrow> EventAction \<Rightarrow> EventAction" where
  "SetPhotonBirthInformation sa aStep evtac =
     (let evtac = FillFiberAngleCreation (angle sa / deg) evtac
      in FillBirthWavelength (1240 / (TotalEnergy aStep / eV)) evtac)"

text \<open>
  \<open>UpdateSc\<close>, statement by statement. The parameters \<open>trackingStatus\<close> and \<open>track\<close> are
  not read by the body (\<open>track\<close> is left out). \<open>parentID\<close> travels as a \<open>G4float\<close> and is
  stored as an \<open>int\<close>: the number of the parent track, exact below \<open>2^24\<close>.
\<close>

definition UpdateSc ::
  "RunTallySc \<Rightarrow> real \<Rightarrow> real \<Rightarrow> real \<Rightarrow> real \<Rightarrow> real \<Rightarrow> real \<Rightarrow> int \<Rightarrow> int \<Rightarrow> string
     \<Rightarrow> bool \<Rightarrow> RunTallySc" where
  "UpdateSc tally x y z energy0 energyDeposited0 energy_post0 parentID0 particleID0
     volumeNamePostStep0 trackingStatus =
     (let tally =
            (if \<not> flag tally
             then (let tally = AddXEntrance x tally;
                       tally = AddYEntrance y tally;
                       tally = AddZEntrance z tally;
                       tally = AddParentID parentID0 tally;
                       tally = AddParticleID particleID0 tally;
                       tally = AddEnergy energy0 tally
                   in ActivateFlag tally)
             else tally);
          tally = AddDepositedEnergy energyDeposited0 tally;
          tally = AddDepositedEnergyEvent energyDeposited0 tally
      in if volumeNamePostStep0 = ''Holder'' \<or> energy_post0 = 0
         then (let tally = AddTotalDepositedEnergy (GetDepositedEnergy tally) tally;
                   tally = ResetDepositedEnergy tally
               in ResetFlag tally)
         else tally)"

text \<open>
  The static table \<open>ScMap\<close> of \<open>UserSteppingAction\<close>: volume name to accessor of the
  event action; an accessor returns a reference, read with \<open>sc_get\<close> and written back
  with \<open>sc_put\<close>.
\<close>

datatype ScAccessor = GetZnS | GetScintillator

definition ScMap :: "string \<rightharpoonup> ScAccessor" where
  "ScMap = [''ZnS'' \<mapsto> GetZnS, ''Scintillator'' \<mapsto> GetScintillator]"

fun sc_get :: "ScAccessor \<Rightarrow> EventAction \<Rightarrow> RunTallySc" where
  "sc_get GetZnS ev = StatsZnS ev"
| "sc_get GetScintillator ev = StatsScintillator ev"

fun sc_put :: "ScAccessor \<Rightarrow> RunTallySc \<Rightarrow> EventAction \<Rightarrow> EventAction" where
  "sc_put GetZnS t ev = ev\<lparr>StatsZnS := t\<rparr>"
| "sc_put GetScintillator t ev = ev\<lparr>StatsScintillator := t\<rparr>"

text \<open>
  The assignments that open \<open>UserSteppingAction\<close>, in the order of the source:
  \<open>angle\<close> is computed from the step points still holding the values of the previous
  call, the step points are assigned afterwards.
\<close>

definition load_step :: "SteppingAction \<Rightarrow> G4Step \<Rightarrow> SteppingAction" where
  "load_step sa aStep =
     (let sa = sa\<lparr>particleName := ParticleName aStep,
                  m_particleID := PDGEncoding aStep,
                  endproc := ProcessDefinedStep aStep,
                  m_parentID := ParentID aStep,
                  trackID := TrackID aStep,
                  stepNo := CurrentStepNumber aStep,
                  m_energy := PreKineticEnergy aStep / MeV,
                  energy_post := PostKineticEnergy aStep / MeV,
                  energyDeposited := TotalEnergyDeposit aStep / keV\<rparr>;
          sa = sa\<lparr>angle := arccos ((sp_x (postStep sa) - sp_x (preStep sa)) / StepLength aStep),
                  m_time := PostGlobalTime aStep / ns\<rparr>
      in sa\<lparr>preStep :=
               \<lparr>sp_x = fst (PrePosition aStep) / mm,
                sp_y = fst (snd (PrePosition aStep)) / mm,
                sp_z = snd (snd (PrePosition aStep)) / mm,
                sp_px = fst (PreMomentumDirection aStep),
                sp_py = fst (snd (PreMomentumDirection aStep)),
                sp_pz = snd (snd (PreMomentumDirection aStep))\<rparr>,
             postStep :=
               \<lparr>sp_x = fst (PostPosition aStep) / mm,
                sp_y = fst (snd (PostPosition aStep)) / mm,
                sp_z = snd (snd (PostPosition aStep)) / mm,
                sp_px = fst (PostMomentumDirection aStep),
                sp_py = fst (snd (PostMomentumDirection aStep)),
                sp_pz = snd (snd (PostMomentumDirection aStep))\<rparr>,
             volumeNamePreStep := PreVolumeName aStep,
             volumeNamePostStep := PostVolumeName aStep\<rparr>)"

text \<open>
  The block of \<open>UserSteppingAction\<close> for optical photons. The creator process is
  dereferenced on the first step of the track.
\<close>

definition photon_part ::
  "SteppingAction \<Rightarrow> G4Step \<Rightarrow> EventAction \<Rightarrow> G4TrackStatus
     \<Rightarrow> fault + (EventAction \<times> G4TrackStatus)" where
  "photon_part sa aStep evtac ts =
     (case (if PhotonTrackStatus sa = False
            then Inr (CountKilled evtac, fStopAndKill)
            else (case CheckBoundaryStatus sa aStep evtac of
                    Inl f \<Rightarrow> Inl f
                  | Inr evtac \<Rightarrow> Inr (evtac, ts)))
      of Inl f \<Rightarrow> Inl f
       | Inr (evtac, ts) \<Rightarrow>
           if stepNo sa = 1
           then (let evtac = SetPhotonBirthInformation sa aStep evtac
                 in case CreatorProcess aStep of
                      None \<Rightarrow> Inl NullPointer
                    | Some creator \<Rightarrow>
                        let evtac = (if creator = ''Scintillation''
                                     then CountScintillation aStep evtac else evtac);
                            evtac = (if creator = ''Cerenkov''
                                     then CountCerenkov aStep evtac else evtac)
                        in Inr (evtac, ts))
           else Inr (evtac, ts))"

definition UserSteppingAction ::
  "SteppingAction \<Rightarrow> G4Step \<Rightarrow> EventAction
     \<Rightarrow> fault + (SteppingAction \<times> EventAction \<times> G4TrackStatus)" where
  "UserSteppingAction sa0 aStep evtac =
     (let sa = load_step sa0 aStep;
          evtac = (if m_parentID sa = 0 \<and> stepNo sa = 1
                   then SetInputInformations sa evtac else evtac);
          evtac = (case ScMap (volumeNamePreStep sa) of
                     Some it \<Rightarrow>
                       if particleName sa \<noteq> ''opticalphoton''
                       then sc_put it
                              (UpdateSc (sc_get it evtac) (sp_x (preStep sa)) (sp_y (preStep sa))
                                 (sp_z (preStep sa)) (m_energy sa) (energyDeposited sa)
                                 (energy_post sa) (m_parentID sa) (m_particleID sa)
                                 (volumeNamePostStep sa) (TrackingStatus sa)) evtac
                       else evtac
                   | None \<Rightarrow> evtac)
      in case (if particleName sa = ''opticalphoton''
               then photon_part sa aStep evtac (TrackStatus aStep)
               else Inr (evtac, TrackStatus aStep))
         of Inl f \<Rightarrow> Inl f
          | Inr (evtac, ts) \<Rightarrow>
              Inr (sa, evtac,
                   if PostVolumeName aStep = ''World'' then fStopAndKill else ts))"

section \<open>The event action\<close>

definition BeginOfEventAction :: "EventAction \<Rightarrow> EventAction" where
  "BeginOfEventAction ev =
     ev\<lparr>StatsInput := RunTallyInput_init, StatsOptical := RunTallyOptical_init,
        StatsZnS := RunTallySc_init, StatsScintillator := RunTallySc_init\<rparr>"

text \<open>The calls that \<open>EndOfEventAction\<close> makes on the run action, in order.\<close>

datatype emitted =
    UpdateStatisticsInput RunTallyInput
  | UpdateStatisticsZnS RunTallySc
  | UpdateStatisticsScintillator RunTallySc
  | UpdateStatisticsOptical RunTallyOptical

text \<open>
  Division of two \<open>G4int\<close>: a zero divisor is a fault, the quotient truncates towards
  zero.
\<close>

definition int_div :: "int \<Rightarrow> int \<Rightarrow> fault + int" where
  "int_div a b =
     (if b = 0 then Inl DivisionByZero else Inr (sgn a * sgn b * (\<bar>a\<bar> div \<bar>b\<bar>)))"

text \<open>
  The local fractions of the derivation block, each an integer quotient stored in a
  \<open>float\<close>: \<open>Absfrac, BulkfracZnS, BulkfracSc, BulkfracTotal, Escfrac, Failfrac,
  Killedfrac\<close>. They are printed only.
\<close>

definition fractions :: "RunTallyOptical \<Rightarrow> fault + real list" where
  "fractions s =
     (case int_div (100 * Absorbed s) (GeneratedTotal s) of Inl f \<Rightarrow> Inl f | Inr Absfrac \<Rightarrow>
      case int_div (100 * BulkAbsZnS s) (GeneratedTotal s) of Inl f \<Rightarrow> Inl f | Inr BulkfracZnS \<Rightarrow>
      case int_div (100 * BulkAbsSc s) (GeneratedTotal s) of Inl f \<Rightarrow> Inl f | Inr BulkfracSc \<Rightarrow>
      case int_div (100 * Escaped s) (GeneratedTotal s) of Inl f \<Rightarrow> Inl f | Inr Escfrac \<Rightarrow>
      case int_div (100 * Failed s) (GeneratedTotal s) of Inl f \<Rightarrow> Inl f | Inr Failfrac \<Rightarrow>
      case int_div (100 * Killed s) (GeneratedTotal s) of Inl f \<Rightarrow> Inl f | Inr Killedfrac \<Rightarrow>
        Inr [real_of_int Absfrac, real_of_int BulkfracZnS, real_of_int BulkfracSc,
             real_of_int BulkfracZnS + real_of_int BulkfracSc, real_of_int Escfrac,
             real_of_int Failfrac, real_of_int Killedfrac])"

text \<open>The assignments of the derivation block, before the fractions.\<close>

definition derive :: "EventAction \<Rightarrow> RunTallyOptical" where
  "derive ev =
     (let s = StatsOptical ev;
          s = s\<lparr>IncidentE := in_energy (StatsInput ev)\<rparr>;
          s = s\<lparr>DepositTotal := deposited_energy_event (StatsScintillator ev)
                                + deposited_energy_event (StatsZnS ev)\<rparr>;
          s = s\<lparr>DepositSc := deposited_energy_event (StatsScintillator ev)\<rparr>;
          s = s\<lparr>DepositZnS := deposited_energy_event (StatsZnS ev)\<rparr>;
          s = s\<lparr>GeneratedSc := ScintillationSc s + CerenkovSc s\<rparr>;
          s = s\<lparr>GeneratedZnS := ScintillationZnS s + CerenkovZnS s\<rparr>;
          s = s\<lparr>GeneratedTotal := GeneratedSc s + GeneratedZnS s\<rparr>
      in s\<lparr>BulkAbsTotal := BulkAbsSc s + BulkAbsZnS s\<rparr>)"

definition EndOfEventAction :: "EventAction \<Rightarrow> fault + (EventAction \<times> emitted list)" where
  "EndOfEventAction ev =
     (let out = (if in_energy (StatsInput ev) > 0
                 then [UpdateStatisticsInput (StatsInput ev)] else []);
          out = (if energy (StatsZnS ev) \<noteq> []
                 then out @ [UpdateStatisticsZnS (StatsZnS ev)] else out);
          out = (if energy (StatsScintillator ev) \<noteq> []
                 then out @ [UpdateStatisticsScintillator (StatsScintillator ev)] else out)
      in case (if ScintillationSc (StatsOptical ev) < 0
               then (let ev = ev\<lparr>StatsOptical := derive ev\<rparr>
                     in case fractions (StatsOptical ev) of
                          Inl f \<Rightarrow> Inl f
                        | Inr printed \<Rightarrow> Inr ev)
               else Inr ev)
         of Inl f \<Rightarrow> Inl f
          | Inr ev \<Rightarrow> Inr (ev, out @ [UpdateStatisticsOptical (StatsOptical ev)]))"

section \<open>Command line (OpticalSimulation.cc)\<close>

text \<open>
  The argument handling of \<open>main\<close>, up to the choice of the run manager. The library
  function \<open>std::stoul\<close> is a parameter (\<open>None\<close> where it throws), as is the value of
  \<open>std::thread::hardware_concurrency()\<close>. An outcome records what the code does:
  \<open>FatalException c k\<close> is a call of \<open>G4Exception\<close> with exception code \<open>c\<close> and severity
  \<open>FatalException\<close>, followed by \<open>k\<close>, the statements that come after the call in
  \<open>main\<close>; \<open>Configured\<close> is the arrival at the geometry set-up with a run manager.
\<close>

datatype RunManagerKind = G4RunManager | G4MTRunManager nat

record Setup =
  outputFile :: string
  TotalNParticles :: nat
  flag_MT :: bool
  Ncores :: nat
  runManager :: RunManagerKind

datatype main_outcome =
    FatalException string main_outcome
  | Return int
  | StoulThrows
  | RunManagerUninitialised
  | Configured Setup

definition main :: "(string \<Rightarrow> nat option) \<Rightarrow> nat \<Rightarrow> string list \<Rightarrow> main_outcome" where
  "main stoul hardware_concurrency argv =
     (let argc = length argv in
      if argc < 2 then FatalException ''main0004'' (Return 1)
      else if argc = 2
      then Configured \<lparr>outputFile = argv ! 1, TotalNParticles = 0, flag_MT = False,
                       Ncores = hardware_concurrency, runManager = G4RunManager\<rparr>
      else if argc \<ge> 5
      then (case stoul (argv ! 2) of
              None \<Rightarrow> StoulThrows
            | Some n \<Rightarrow>
                if argv ! 4 = ''ON''
                then (if argc = 6
                      then (case stoul (argv ! 5) of
                              None \<Rightarrow> StoulThrows
                            | Some k \<Rightarrow>
                                Configured \<lparr>outputFile = argv ! 1, TotalNParticles = n,
                                            flag_MT = True, Ncores = k,
                                            runManager = G4MTRunManager k\<rparr>)
                      else Configured \<lparr>outputFile = argv ! 1, TotalNParticles = n,
                                       flag_MT = True, Ncores = hardware_concurrency,
                                       runManager = G4MTRunManager hardware_concurrency\<rparr>)
                else if argv ! 4 = ''OFF''
                then Configured \<lparr>outputFile = argv ! 1, TotalNParticles = n,
                                 flag_MT = False, Ncores = hardware_concurrency,
                                 runManager = G4RunManager\<rparr>
                else FatalException ''main0002'' RunManagerUninitialised)
      else FatalException ''main0003'' RunManagerUninitialised)"

text \<open>What the interface description calls a fatal abort: a fatal exception is raised.\<close>

fun fatal :: "main_outcome \<Rightarrow> bool" where
  "fatal (FatalException c k) = True"
| "fatal _ = False"

text \<open>An instance of the parameter: the value of a leading run of decimal digits.\<close>

definition is_digit :: "char \<Rightarrow> bool" where
  "is_digit c = (48 \<le> (of_char c :: nat) \<and> (of_char c :: nat) \<le> 57)"

definition stoul_digits :: "string \<Rightarrow> nat option" where
  "stoul_digits s =
     (let ds = takeWhile is_digit s
      in if ds = [] then None
         else Some (foldl (\<lambda>n c. 10 * n + (of_char c - 48)) 0 ds))"

section \<open>Observations used by the statements\<close>





definition generated_sum :: "RunTallyOptical \<Rightarrow> int" where
  "generated_sum s = ScintillationZnS s + CerenkovZnS s + ScintillationSc s + CerenkovSc s"





text \<open>The counting methods as values, to speak about sequences of calls.\<close>

datatype counting_call =
    CallCerenkovZnS | CallCerenkovSc | CallScintillationZnS | CallScintillationSc
  | CallKilled | CallDetected | CallAbsorbed | CallBulkAbsSc | CallBulkAbsZnS
  | CallEscaped | CallFailed

fun count :: "counting_call \<Rightarrow> EventAction \<Rightarrow> EventAction" where
  "count CallCerenkovZnS = CountCerenkovZnS"
| "count CallCerenkovSc = CountCerenkovSc"
| "count CallScintillationZnS = CountScintillationZnS"
| "count CallScintillationSc = CountScintillationSc"
| "count CallKilled = CountKilled"
| "count CallDetected = CountDetected"
| "count CallAbsorbed = CountAbsorbed"
| "count CallBulkAbsSc = CountBulkAbsSc"
| "count CallBulkAbsZnS = CountBulkAbsZnS"
| "count CallEscaped = CountEscaped"
| "count CallFailed = CountFailed"



text \<open>
  The states of the event action within one event: after the reset, after a counting
  method, after a stepping callback that returned.
\<close>

inductive reachable :: "EventAction \<Rightarrow> bool" where
  reach_begin: "reachable (BeginOfEventAction ev)"
| reach_count: "reachable ev \<Longrightarrow> reachable (count c ev)"
| reach_step: "reachable ev \<Longrightarrow> UserSteppingAction sa aStep ev = Inr (sa', ev', ts)
                 \<Longrightarrow> reachable ev'"

text \<open>The same states, indexed by the number of calls made since the reset.\<close>

inductive reachable_within :: "nat \<Rightarrow> EventAction \<Rightarrow> bool" where
  within_begin: "reachable_within 0 (BeginOfEventAction ev)"
| within_count: "reachable_within n ev \<Longrightarrow> reachable_within (Suc n) (count c ev)"
| within_step: "reachable_within n ev \<Longrightarrow> UserSteppingAction sa aStep ev = Inr (sa', ev', ts)
                  \<Longrightarrow> reachable_within (Suc n) ev'"


text \<open>The fields of the optical tally that only the derivation block assigns.\<close>

definition derived_zero :: "RunTallyOptical \<Rightarrow> bool" where
  "derived_zero s \<longleftrightarrow>
     IncidentE s = 0 \<and> DepositTotal s = 0 \<and> DepositZnS s = 0 \<and> DepositSc s = 0 \<and>
     GeneratedSc s = 0 \<and> GeneratedZnS s = 0 \<and> GeneratedTotal s = 0 \<and> BulkAbsTotal s = 0"

section \<open>Concrete inputs\<close>

definition EventAction_init :: EventAction where
  "EventAction_init =
     \<lparr>StatsInput = RunTallyInput_init, StatsZnS = RunTallySc_init,
      StatsScintillator = RunTallySc_init, StatsOptical = RunTallyOptical_init\<rparr>"

text \<open>
  A stepping action between two calls, and a step of a secondary optical photon of
  3 eV that reaches a geometry boundary from the scintillator.
\<close>

definition sa_example :: SteppingAction where
  "sa_example =
     \<lparr>TrackingStatus = True, particleName = [], m_particleID = 0, m_parentID = 0,
      trackID = 0, stepNo = 0, endproc = [], volumeNamePreStep = [],
      volumeNamePostStep = [], angle = 0, m_time = 0, m_energy = 0, energy_post = 0,
      energyDeposited = 0,
      preStep = \<lparr>sp_x = 0, sp_y = 0, sp_z = 0, sp_px = 0, sp_py = 0, sp_pz = 0\<rparr>,
      postStep = \<lparr>sp_x = 0, sp_y = 0, sp_z = 0, sp_px = 0, sp_py = 0, sp_pz = 0\<rparr>,
      VerbosityLevel = 0, PhotonTrackStatus = True\<rparr>"

definition photon_step :: G4Step where
  "photon_step =
     \<lparr>ParticleName = ''opticalphoton'', PDGEncoding = - 22, ParentID = 1, TrackID = 7,
      CurrentStepNumber = 2, ProcessDefinedStep = ''Transportation'',
      CreatorProcess = Some ''Scintillation'',
      ProcessList = [(''Transportation'', Undefined), (''OpAbsorption'', Undefined),
                     (''OpBoundary'', Detection)],
      PostStepStatus = fGeomBoundary, PreKineticEnergy = 3 / 1000000,
      PostKineticEnergy = 3 / 1000000, TotalEnergyDeposit = 0, TotalEnergy = 3 / 1000000,
      StepLength = 2, PostGlobalTime = 5, TrackLength = 40,
      PrePosition = (1, 2, 3), PostPosition = (1, 2, 5),
      PreMomentumDirection = (0, 0, 1), PostMomentumDirection = (0, 0, 1),
      PreVolumeName = ''Scintillator'', PostVolumeName = ''Photocathode'',
      NextVolumeName = ''Photocathode'', TrackStatus = fAlive\<rparr>"

definition absorbed_step :: G4Step where
  "absorbed_step =
     photon_step\<lparr>ProcessList := [(''Transportation'', Undefined), (''OpBoundary'', Absorption)]\<rparr>"

text \<open>The same photon, its step limited by bulk absorption and flagged as a boundary step.\<close>

definition bulk_detect_step :: G4Step where
  "bulk_detect_step = photon_step\<lparr>ProcessDefinedStep := ''OpAbsorption''\<rparr>"





section \<open>Auxiliary notions\<close>

text \<open>
  \<open>keeps s s'\<close>: from \<open>s\<close> to \<open>s'\<close> the counter \<open>ScintillationSc\<close> has not decreased and
  the fields assigned by the derivation block are the same.
\<close>

definition keeps :: "RunTallyOptical \<Rightarrow> RunTallyOptical \<Rightarrow> bool" where
  "keeps s s' \<longleftrightarrow>
     ScintillationSc s \<le> ScintillationSc s' \<and>
     IncidentE s' = IncidentE s \<and> DepositTotal s' = DepositTotal s \<and>
     DepositZnS s' = DepositZnS s \<and> DepositSc s' = DepositSc s \<and>
     GeneratedSc s' = GeneratedSc s \<and> GeneratedZnS s' = GeneratedZnS s \<and>
     GeneratedTotal s' = GeneratedTotal s \<and> BulkAbsTotal s' = BulkAbsTotal s"

text \<open>
  The statements of \<open>UserSteppingAction\<close> between the opening assignments and the block
  for optical photons: the input record of a primary on its first step, and the tally
  of the detector volume for every particle but the optical photon.
\<close>

definition before_photon :: "SteppingAction \<Rightarrow> EventAction \<Rightarrow> EventAction" where
  "before_photon sa evtac =
     (let evtac = (if m_parentID sa = 0 \<and> stepNo sa = 1
                   then SetInputInformations sa evtac else evtac)
      in case ScMap (volumeNamePreStep sa) of
                     Some it \<Rightarrow>
                       if particleName sa \<noteq> ''opticalphoton''
                       then sc_put it
                              (UpdateSc (sc_get it evtac) (sp_x (preStep sa)) (sp_y (preStep sa))
                                 (sp_z (preStep sa)) (m_energy sa) (energyDeposited sa)
                                 (energy_post sa) (m_parentID sa) (m_particleID sa)
                                 (volumeNamePostStep sa) (TrackingStatus sa)) evtac
                       else evtac
                   | None \<Rightarrow> evtac)"

section \<open>Properties of the boundary classifier\<close>

lemmas count_defs = upd_optical_def CountCerenkovZnS_def CountCerenkovSc_def
  CountScintillationZnS_def CountScintillationSc_def CountKilled_def CountDetected_def
  CountAbsorbed_def CountBulkAbsSc_def CountBulkAbsZnS_def CountEscaped_def CountFailed_def

lemmas fill_defs = FillPhotonDetectorPositionX_def FillPhotonDetectorPositionY_def
  FillPhotonDetectorPositionZ_def FillBirthWavelength_def FillBirthWavelengthDetected_def
  FillPhotonTime_def FillPhotonTotalLength_def FillFiberAngleCreation_def


lemmas fixture_defs = photon_step_def sa_example_def EventAction_init_def absorbed_step_def
  bulk_detect_step_def RunTallyOptical_init_def RunTallySc_init_def RunTallyInput_init_def

text \<open>
  Once the boundary process is found, the classifier returns, and its result is the
  two statements applied in sequence.
\<close>

lemma CheckBoundaryStatus_found:
  assumes "find_boundary (ProcessList aStep) = Some b"
  shows "CheckBoundaryStatus sa aStep ev =
     Inr (let evtac =
                (if endproc sa = ''OpAbsorption''
                 then (if PreVolumeName aStep = ''ZnS''
                       then CountBulkAbsZnS ev else CountBulkAbsSc ev)
                 else ev)
          in if PostStepStatus aStep = fGeomBoundary
             then (case b of
                     Detection \<Rightarrow>
                       let evtac = CountDetected evtac;
                           evtac = FillPhotonDetectorPositionX (sp_x (postStep sa)) evtac;
                           evtac = FillPhotonDetectorPositionY (sp_y (postStep sa)) evtac;
                           evtac = FillPhotonDetectorPositionZ (sp_z (postStep sa)) evtac;
                           evtac = FillBirthWavelengthDetected
                                     (1240 / (TotalEnergy aStep / eV)) evtac;
                           evtac = FillPhotonTime (PostGlobalTime aStep / ns) evtac
                       in FillPhotonTotalLength (TrackLength aStep) evtac
                   | Absorption \<Rightarrow>
                       if NextVolumeName aStep = ''Photocathode''
                       then CountFailed evtac else CountAbsorbed evtac
                   | NoRINDEX \<Rightarrow> CountEscaped evtac
                   | _ \<Rightarrow> evtac)
             else evtac)"
  using assms by (simp add: CheckBoundaryStatus_def Let_def)

lemma CheckBoundaryStatus_returns:
  assumes "CheckBoundaryStatus sa aStep ev = Inr ev'"
  obtains b where "find_boundary (ProcessList aStep) = Some b"
  using assms by (cases "find_boundary (ProcessList aStep)") (simp_all add: CheckBoundaryStatus_def)





text \<open>
  Claim C4. On a geometry-boundary step whose boundary status is \<open>Absorption\<close>, the
  classifier increments \<open>Failed\<close> when the next volume is the photocathode and
  \<open>Absorbed\<close> (surface absorption) otherwise; the other of the two is unchanged.
\<close>

theorem absorption_failed_or_surface:
  assumes "find_boundary (ProcessList aStep) = Some Absorption"
      and "PostStepStatus aStep = fGeomBoundary"
  shows "\<exists>ev'. CheckBoundaryStatus sa aStep ev = Inr ev' \<and>
           (if NextVolumeName aStep = ''Photocathode''
            then Failed (StatsOptical ev') = Failed (StatsOptical ev) + 1 \<and>
                 Absorbed (StatsOptical ev') = Absorbed (StatsOptical ev)
            else Absorbed (StatsOptical ev') = Absorbed (StatsOptical ev) + 1 \<and>
                 Failed (StatsOptical ev') = Failed (StatsOptical ev))"
  using assms by (simp add: CheckBoundaryStatus_def Let_def count_defs)

theorem absorption_witness:
  "find_boundary (ProcessList absorbed_step) = Some Absorption \<and>
   PostStepStatus absorbed_step = fGeomBoundary \<and>
   NextVolumeName absorbed_step = ''Photocathode'' \<and>
   (\<exists>ev'. CheckBoundaryStatus sa_example absorbed_step EventAction_init = Inr ev' \<and>
          Failed (StatsOptical ev') = 1 \<and> Absorbed (StatsOptical ev') = 0)"
proof -
  have h1: "find_boundary (ProcessList absorbed_step) = Some Absorption"
    by (simp add: absorbed_step_def photon_step_def find_boundary_def)
  have h2: "PostStepStatus absorbed_step = fGeomBoundary"
    by (simp add: absorbed_step_def photon_step_def)
  have h3: "NextVolumeName absorbed_step = ''Photocathode''"
    by (simp add: absorbed_step_def photon_step_def)
  from absorption_failed_or_surface [OF h1 h2, of sa_example EventAction_init] h1 h2 h3
  show ?thesis by (simp add: EventAction_init_def RunTallyOptical_init_def)
qed

text \<open>
  Claim C5. On a geometry-boundary step whose boundary status is \<open>Detection\<close>, the
  classifier increments \<open>Detected\<close> by one and appends one element to each of the
  detector-position sequences (x, y, z), the detected-birth-wavelength sequence, the
  detection-time sequence and the total-track-length sequence; the wavelength appended
  is 1240 divided by the total energy of the photon in eV. The quotient is stated for a
  nonzero energy, where exact and machine division agree on what is meant.
\<close>

theorem detection_recorded:
  assumes "find_boundary (ProcessList aStep) = Some Detection"
      and "PostStepStatus aStep = fGeomBoundary"
  shows "\<exists>ev'. CheckBoundaryStatus sa aStep ev = Inr ev' \<and>
           Detected (StatsOptical ev') = Detected (StatsOptical ev) + 1 \<and>
           DetectorPositionX (StatsOptical ev') =
             DetectorPositionX (StatsOptical ev) @ [sp_x (postStep sa)] \<and>
           DetectorPositionY (StatsOptical ev') =
             DetectorPositionY (StatsOptical ev) @ [sp_y (postStep sa)] \<and>
           DetectorPositionZ (StatsOptical ev') =
             DetectorPositionZ (StatsOptical ev) @ [sp_z (postStep sa)] \<and>
           length (BirthWavelengthDetected (StatsOptical ev')) =
             length (BirthWavelengthDetected (StatsOptical ev)) + 1 \<and>
           (TotalEnergy aStep \<noteq> 0 \<longrightarrow>
              BirthWavelengthDetected (StatsOptical ev') =
                BirthWavelengthDetected (StatsOptical ev) @ [1240 / (TotalEnergy aStep / eV)]) \<and>
           Time (StatsOptical ev') = Time (StatsOptical ev) @ [PostGlobalTime aStep / ns] \<and>
           TotalLength (StatsOptical ev') = TotalLength (StatsOptical ev) @ [TrackLength aStep]"
  using assms by (simp add: CheckBoundaryStatus_def Let_def count_defs fill_defs)

theorem detection_witness:
  "find_boundary (ProcessList photon_step) = Some Detection \<and>
   PostStepStatus photon_step = fGeomBoundary \<and>
   TotalEnergy photon_step \<noteq> 0 \<and>
   (\<exists>ev'. CheckBoundaryStatus (load_step sa_example photon_step) photon_step EventAction_init
             = Inr ev' \<and>
          Detected (StatsOptical ev') = 1 \<and>
          DetectorPositionX (StatsOptical ev') = [1] \<and>
          DetectorPositionY (StatsOptical ev') = [2] \<and>
          DetectorPositionZ (StatsOptical ev') = [5] \<and>
          BirthWavelengthDetected (StatsOptical ev') = [1240 / 3] \<and>
          Time (StatsOptical ev') = [5] \<and>
          TotalLength (StatsOptical ev') = [40])"
proof -
  have h1: "find_boundary (ProcessList photon_step) = Some Detection"
    by (simp add: photon_step_def find_boundary_def)
  have h2: "PostStepStatus photon_step = fGeomBoundary"
    by (simp add: photon_step_def)
  have h3: "TotalEnergy photon_step \<noteq> 0"
    by (simp add: photon_step_def)
  have pos: "sp_x (postStep (load_step sa_example photon_step)) = 1"
            "sp_y (postStep (load_step sa_example photon_step)) = 2"
            "sp_z (postStep (load_step sa_example photon_step)) = 5"
    by (simp_all add: load_step_def photon_step_def Let_def mm_def)
  have vals: "1240 / (TotalEnergy photon_step / eV) = 1240 / 3"
             "PostGlobalTime photon_step / ns = 5" "TrackLength photon_step = 40"
    by (simp_all add: photon_step_def eV_def ns_def)
  have init: "StatsOptical EventAction_init = RunTallyOptical_init"
    by (simp add: EventAction_init_def)
  from detection_recorded [OF h1 h2, of "load_step sa_example photon_step" EventAction_init]
  show ?thesis
    unfolding pos vals init using h1 h2 h3 by (auto simp add: RunTallyOptical_init_def)
qed


section \<open>Energy-deposition episodes\<close>

lemmas tally_defs = AddXEntrance_def AddYEntrance_def AddZEntrance_def AddParentID_def
  AddParticleID_def AddEnergy_def AddDepositedEnergyEvent_def AddDepositedEnergy_def
  AddTotalDepositedEnergy_def ActivateFlag_def ResetFlag_def ResetDepositedEnergy_def
  GetDepositedEnergy_def

lemma UpdateSc_step:
  assumes "t' = UpdateSc t x y z e d epost pid qid vpost tr"
  shows "(\<not> flag t \<longrightarrow>
            x_entrance t' = x_entrance t @ [x] \<and> y_entrance t' = y_entrance t @ [y] \<and>
            z_entrance t' = z_entrance t @ [z] \<and> parentID t' = parentID t @ [pid] \<and>
            particleID t' = particleID t @ [qid] \<and> energy t' = energy t @ [e]) \<and>
         (flag t \<longrightarrow>
            x_entrance t' = x_entrance t \<and> y_entrance t' = y_entrance t \<and>
            z_entrance t' = z_entrance t \<and> parentID t' = parentID t \<and>
            particleID t' = particleID t \<and> energy t' = energy t) \<and>
         deposited_energy_event t' = deposited_energy_event t + d \<and>
         (vpost = ''Holder'' \<or> epost = 0 \<longrightarrow>
            total_deposited_energy t' = total_deposited_energy t @ [deposited_energy t + d] \<and>
            deposited_energy t' = 0 \<and> \<not> flag t') \<and>
         (\<not> (vpost = ''Holder'' \<or> epost = 0) \<longrightarrow>
            total_deposited_energy t' = total_deposited_energy t \<and>
            deposited_energy t' = deposited_energy t + d \<and> flag t')"
  unfolding assms by (simp add: UpdateSc_def Let_def tally_defs)

lemma UpdateSc_three_steps:
  assumes closed: "\<not> flag t" "deposited_energy t = 0"
      and inside: "v1 \<noteq> ''Holder''" "p1 \<noteq> 0" "v2 \<noteq> ''Holder''" "p2 \<noteq> 0"
      and total: "d1 + d2 + d3 = 5"
      and t3: "t3 = UpdateSc (UpdateSc (UpdateSc t x1 y1 z1 e1 d1 p1 pid1 qid1 v1 tr1)
                                     x2 y2 z2 e2 d2 p2 pid2 qid2 v2 tr2)
                           x3 y3 z3 e3 d3 p3 pid3 qid3 ''Holder'' tr3"
  shows "total_deposited_energy t3 = total_deposited_energy t @ [5] \<and>
         \<not> flag t3 \<and> deposited_energy t3 = 0 \<and>
         deposited_energy_event t3 = deposited_energy_event t + 5 \<and>
         x_entrance t3 = x_entrance t @ [x1] \<and> y_entrance t3 = y_entrance t @ [y1] \<and>
         z_entrance t3 = z_entrance t @ [z1] \<and> parentID t3 = parentID t @ [pid1] \<and>
         particleID t3 = particleID t @ [qid1] \<and> energy t3 = energy t @ [e1] \<and>
         x_entrance (UpdateSc t3 x4 y4 z4 e4 d4 p4 pid4 qid4 v4 tr4) = x_entrance t @ [x1, x4] \<and>
         energy (UpdateSc t3 x4 y4 z4 e4 d4 p4 pid4 qid4 v4 tr4) = energy t @ [e1, e4] \<and>
         (v4 = ''Holder'' \<or> p4 = 0 \<longrightarrow>
            total_deposited_energy (UpdateSc t3 x4 y4 z4 e4 d4 p4 pid4 qid4 v4 tr4)
              = total_deposited_energy t @ [5, d4]) \<and>
         (\<not> (v4 = ''Holder'' \<or> p4 = 0) \<longrightarrow>
            total_deposited_energy (UpdateSc t3 x4 y4 z4 e4 d4 p4 pid4 qid4 v4 tr4)
              = total_deposited_energy t @ [5] \<and>
            deposited_energy (UpdateSc t3 x4 y4 z4 e4 d4 p4 pid4 qid4 v4 tr4) = d4 \<and>
            flag (UpdateSc t3 x4 y4 z4 e4 d4 p4 pid4 qid4 v4 tr4))"
proof -
  have s: "d1 + d2 + d3 = 5" by (rule total)
  show ?thesis
  unfolding t3 using closed inside
  by (simp add: UpdateSc_def Let_def tally_defs s add.assoc[symmetric])
qed

text \<open>
  Claim C2. One call of \<open>UpdateSc\<close> on a tally \<open>t\<close>: when the flag is false the entry
  position, parent ID, particle ID and entry energy are appended (and nothing is
  appended when it is true); the deposited energy of the step is added to the
  per-event accumulator and to the per-episode accumulator; exactly when the post-step
  volume is \<open>Holder\<close> or the post-step kinetic energy is zero, the per-episode total
  (including this step) is appended to the episode totals, the per-episode accumulator
  is zero and the flag is false afterwards; otherwise the flag is true. In particular,
  three steps from a closed tally \<open>u\<close> that deposit 5 in all, the last one ending in the
  holder, append the single episode total 5 and one entry record, and a fourth step
  then opens a second episode with its own entry record and its own total.
\<close>

theorem UpdateSc_episodes:
  assumes "t' = UpdateSc t x y z e d epost pid qid vpost tr"
      and "\<not> flag u" "deposited_energy u = 0"
      and "v1 \<noteq> ''Holder''" "p1 \<noteq> 0" "v2 \<noteq> ''Holder''" "p2 \<noteq> 0"
      and "d1 + d2 + d3 = 5"
      and "u3 = UpdateSc (UpdateSc (UpdateSc u x1 y1 z1 e1 d1 p1 pid1 qid1 v1 tr1)
                                    x2 y2 z2 e2 d2 p2 pid2 qid2 v2 tr2)
                          x3 y3 z3 e3 d3 p3 pid3 qid3 ''Holder'' tr3"
  shows "((\<not> flag t \<longrightarrow>
            x_entrance t' = x_entrance t @ [x] \<and> y_entrance t' = y_entrance t @ [y] \<and>
            z_entrance t' = z_entrance t @ [z] \<and> parentID t' = parentID t @ [pid] \<and>
            particleID t' = particleID t @ [qid] \<and> energy t' = energy t @ [e]) \<and>
          (flag t \<longrightarrow>
            x_entrance t' = x_entrance t \<and> y_entrance t' = y_entrance t \<and>
            z_entrance t' = z_entrance t \<and> parentID t' = parentID t \<and>
            particleID t' = particleID t \<and> energy t' = energy t) \<and>
          deposited_energy_event t' = deposited_energy_event t + d \<and>
          (vpost = ''Holder'' \<or> epost = 0 \<longrightarrow>
            total_deposited_energy t' = total_deposited_energy t @ [deposited_energy t + d] \<and>
            deposited_energy t' = 0 \<and> \<not> flag t') \<and>
          (\<not> (vpost = ''Holder'' \<or> epost = 0) \<longrightarrow>
            total_deposited_energy t' = total_deposited_energy t \<and>
            deposited_energy t' = deposited_energy t + d \<and> flag t')) \<and>
         (total_deposited_energy u3 = total_deposited_energy u @ [5] \<and>
          \<not> flag u3 \<and> deposited_energy u3 = 0 \<and>
          deposited_energy_event u3 = deposited_energy_event u + 5 \<and>
          x_entrance u3 = x_entrance u @ [x1] \<and> y_entrance u3 = y_entrance u @ [y1] \<and>
          z_entrance u3 = z_entrance u @ [z1] \<and> parentID u3 = parentID u @ [pid1] \<and>
          particleID u3 = particleID u @ [qid1] \<and> energy u3 = energy u @ [e1] \<and>
          x_entrance (UpdateSc u3 x4 y4 z4 e4 d4 p4 pid4 qid4 v4 tr4) = x_entrance u @ [x1, x4] \<and>
          energy (UpdateSc u3 x4 y4 z4 e4 d4 p4 pid4 qid4 v4 tr4) = energy u @ [e1, e4] \<and>
          (v4 = ''Holder'' \<or> p4 = 0 \<longrightarrow>
             total_deposited_energy (UpdateSc u3 x4 y4 z4 e4 d4 p4 pid4 qid4 v4 tr4)
               = total_deposited_energy u @ [5, d4]) \<and>
          (\<not> (v4 = ''Holder'' \<or> p4 = 0) \<longrightarrow>
             total_deposited_energy (UpdateSc u3 x4 y4 z4 e4 d4 p4 pid4 qid4 v4 tr4)
               = total_deposited_energy u @ [5] \<and>
             deposited_energy (UpdateSc u3 x4 y4 z4 e4 d4 p4 pid4 qid4 v4 tr4) = d4 \<and>
             flag (UpdateSc u3 x4 y4 z4 e4 d4 p4 pid4 qid4 v4 tr4)))"
  using UpdateSc_step [OF assms(1)] UpdateSc_three_steps [OF assms(2-9)] by (rule conjI)

text \<open>
  An alpha particle that enters the ZnS layer with 5.3 MeV, deposits 1, 2 and 2 keV in
  three steps and leaves to the holder; a second particle then enters and stops.
\<close>

theorem UpdateSc_episodes_witness:
  "total_deposited_energy
     (UpdateSc (UpdateSc (UpdateSc RunTallySc_init 0 0 1 (53 / 10) 1 (52 / 10) 0 1000020040 ''ZnS'' True)
                          0 0 2 (52 / 10) 2 (51 / 10) 0 1000020040 ''ZnS'' True)
               0 0 3 (51 / 10) 2 5 0 1000020040 ''Holder'' True) = [5] \<and>
   x_entrance
     (UpdateSc (UpdateSc (UpdateSc RunTallySc_init 0 0 1 (53 / 10) 1 (52 / 10) 0 1000020040 ''ZnS'' True)
                          0 0 2 (52 / 10) 2 (51 / 10) 0 1000020040 ''ZnS'' True)
               0 0 3 (51 / 10) 2 5 0 1000020040 ''Holder'' True) = [0] \<and>
   flag (UpdateSc RunTallySc_init 0 0 1 (53 / 10) 1 (52 / 10) 0 1000020040 ''ZnS'' True) \<and>
   total_deposited_energy
     (UpdateSc
        (UpdateSc (UpdateSc (UpdateSc RunTallySc_init 0 0 1 (53 / 10) 1 (52 / 10) 0 1000020040 ''ZnS'' True)
                             0 0 2 (52 / 10) 2 (51 / 10) 0 1000020040 ''ZnS'' True)
                  0 0 3 (51 / 10) 2 5 0 1000020040 ''Holder'' True)
        7 8 9 (1 / 2) 500 0 1 11 ''ZnS'' True) = [5, 500]"
proof -
  have c: "\<not> flag RunTallySc_init" "deposited_energy RunTallySc_init = 0"
    by (simp_all add: RunTallySc_init_def)
  have i: "''ZnS'' \<noteq> ''Holder''" "(52 / 10 :: real) \<noteq> 0" "(51 / 10 :: real) \<noteq> 0"
    by simp_all
  have s: "(1 :: real) + 2 + 2 = 5" by simp
  from UpdateSc_episodes [OF refl c i(1) i(2) i(1) i(3) s refl,
      of RunTallySc_init 0 0 1 "53 / 10" 1 "52 / 10" 0 1000020040 "''ZnS''" True
         0 0 1 "53 / 10" 0 1000020040 True 0 0 2 "52 / 10" 0 1000020040 True
         0 0 3 "51 / 10" 5 0 1000020040 True 7 8 9 "1 / 2" 500 0 1 11 "''ZnS''" True]
  show ?thesis by (simp add: RunTallySc_init_def)
qed


section \<open>Event reset and finalisation\<close>

lemma BeginOfEventAction_init: "BeginOfEventAction ev = EventAction_init"
  by (cases ev) (simp add: BeginOfEventAction_def EventAction_init_def)


text \<open>
  Inside the block the fractions are integer quotients by \<open>GeneratedTotal\<close>; they fault
  exactly when it is zero, which makes \<open>EndOfEventAction\<close> fault exactly when the block
  is entered with no photon counted in total.
\<close>

lemma fractions_fault: "fractions s = Inl DivisionByZero \<longleftrightarrow> GeneratedTotal s = 0"
  by (simp add: fractions_def int_div_def)

lemma fractions_cases: "(\<exists>fs. fractions s = Inr fs) \<or> fractions s = Inl DivisionByZero"
  by (simp add: fractions_def int_div_def)


lemma EndOfEventAction_fault:
  "EndOfEventAction ev = Inl DivisionByZero \<longleftrightarrow>
     ScintillationSc (StatsOptical ev) < 0 \<and> generated_sum (StatsOptical ev) = 0"
proof -
  have g: "GeneratedTotal (derive ev) = generated_sum (StatsOptical ev)"
    by (simp add: derive_def Let_def generated_sum_def)
  show ?thesis
    using fractions_cases [of "derive ev"] fractions_fault [of "derive ev"]
    by (auto simp: EndOfEventAction_def Let_def g split: sum.splits)
qed


text \<open>
  Claim C6. A reset followed at once by the finalisation returns without a fault: the
  block holding the divisions is not entered, the only record handed to the run action
  is the reset optical tally, and its \<open>GeneratedTotal\<close> is 0.
\<close>

theorem reset_then_finalize:
  "EndOfEventAction (BeginOfEventAction ev)
     = Inr (BeginOfEventAction ev, [UpdateStatisticsOptical RunTallyOptical_init]) \<and>
   StatsOptical (BeginOfEventAction ev) = RunTallyOptical_init \<and>
   GeneratedTotal RunTallyOptical_init = 0"
  by (simp add: BeginOfEventAction_init EndOfEventAction_def Let_def fixture_defs)

section \<open>What the callbacks preserve\<close>

lemma keeps_refl: "keeps s s"
  by (simp add: keeps_def)

lemma keeps_trans: "keeps s s' \<Longrightarrow> keeps s' s'' \<Longrightarrow> keeps s s''"
  by (simp add: keeps_def)

lemma keeps_count: "keeps (StatsOptical ev) (StatsOptical (count c ev))"
  by (cases c) (simp_all add: keeps_def count_defs)

lemma keeps_CountScintillation: "keeps (StatsOptical ev) (StatsOptical (CountScintillation aStep ev))"
  by (simp add: keeps_def CountScintillation_def Let_def count_defs)

lemma keeps_CountCerenkov: "keeps (StatsOptical ev) (StatsOptical (CountCerenkov aStep ev))"
  by (simp add: keeps_def CountCerenkov_def Let_def count_defs)

lemma keeps_birth: "keeps (StatsOptical ev) (StatsOptical (SetPhotonBirthInformation sa aStep ev))"
  by (simp add: keeps_def SetPhotonBirthInformation_def Let_def count_defs fill_defs)

lemma keeps_CountKilled: "keeps (StatsOptical ev) (StatsOptical (CountKilled ev))"
  by (simp add: keeps_def count_defs)

lemma keeps_check:
  assumes "CheckBoundaryStatus sa aStep ev = Inr ev'"
  shows "keeps (StatsOptical ev) (StatsOptical ev')"
proof -
  from assms obtain b where b: "find_boundary (ProcessList aStep) = Some b"
    by (rule CheckBoundaryStatus_returns)
  from assms have "ev' = projr (CheckBoundaryStatus sa aStep ev)" by simp
  then show ?thesis
    unfolding CheckBoundaryStatus_found [OF b]
    by (cases b) (simp_all add: keeps_def Let_def count_defs fill_defs)
qed

lemma optical_input [simp]:
  "StatsOptical (SetInputInformations sa ev) = StatsOptical ev"
  by (simp add: SetInputInformations_def Let_def upd_input_def SetXStart_def SetXpStart_def
        SetYStart_def SetYpStart_def SetZStart_def SetZpStart_def SetEnergyStart_def)

lemma optical_sc_put [simp]: "StatsOptical (sc_put a t ev) = StatsOptical ev"
  by (cases a) simp_all

lemma keeps_photon_part:
  assumes "photon_part sa aStep ev ts = Inr (ev', ts')"
  shows "keeps (StatsOptical ev) (StatsOptical ev')"
proof -
  obtain ev1 ts1 where first:
    "(if PhotonTrackStatus sa = False then Inr (CountKilled ev, fStopAndKill)
      else (case CheckBoundaryStatus sa aStep ev of Inl f \<Rightarrow> Inl f | Inr evtac \<Rightarrow> Inr (evtac, ts)))
     = Inr (ev1, ts1)"
    using assms by (auto simp: photon_part_def split: sum.splits if_splits)
  have k1: "keeps (StatsOptical ev) (StatsOptical ev1)"
    using first keeps_CountKilled keeps_check
    by (auto split: if_splits sum.splits)
  have rest: "(if stepNo sa = 1
           then (let evtac = SetPhotonBirthInformation sa aStep ev1
                 in case CreatorProcess aStep of
                      None \<Rightarrow> Inl NullPointer
                    | Some creator \<Rightarrow>
                        let evtac = (if creator = ''Scintillation''
                                     then CountScintillation aStep evtac else evtac);
                            evtac = (if creator = ''Cerenkov''
                                     then CountCerenkov aStep evtac else evtac)
                        in Inr (evtac, ts1))
           else Inr (ev1, ts1)) = Inr (ev', ts')"
    using assms first unfolding photon_part_def by simp
  have k2: "keeps (StatsOptical ev1) (StatsOptical ev')"
  proof (cases "stepNo sa = 1")
    case False
    with rest show ?thesis by (simp add: keeps_refl)
  next
    case True
    with rest obtain creator where c: "CreatorProcess aStep = Some creator"
      by (cases "CreatorProcess aStep") (simp_all add: Let_def)
    let ?e1 = "SetPhotonBirthInformation sa aStep ev1"
    let ?e2 = "if creator = ''Scintillation'' then CountScintillation aStep ?e1 else ?e1"
    let ?e3 = "if creator = ''Cerenkov'' then CountCerenkov aStep ?e2 else ?e2"
    from rest True c have e: "ev' = ?e3" by (simp add: Let_def)
    have "keeps (StatsOptical ev1) (StatsOptical ?e1)" by (rule keeps_birth)
    moreover have "keeps (StatsOptical ?e1) (StatsOptical ?e2)"
      by (simp add: keeps_refl keeps_CountScintillation)
    moreover have "keeps (StatsOptical ?e2) (StatsOptical ?e3)"
      by (cases "creator = ''Cerenkov''") (simp_all add: keeps_refl keeps_CountCerenkov)
    ultimately show ?thesis unfolding e by (blast intro: keeps_trans)
  qed
  from k1 k2 show ?thesis by (rule keeps_trans)
qed

lemma optical_before_photon [simp]: "StatsOptical (before_photon sa ev) = StatsOptical ev"
  by (simp add: before_photon_def Let_def split: option.splits)

lemma UserSteppingAction_unfold:
  "UserSteppingAction sa0 aStep ev =
     (case (if particleName (load_step sa0 aStep) = ''opticalphoton''
            then photon_part (load_step sa0 aStep) aStep
                   (before_photon (load_step sa0 aStep) ev) (TrackStatus aStep)
            else Inr (before_photon (load_step sa0 aStep) ev, TrackStatus aStep))
      of Inl f \<Rightarrow> Inl f
       | Inr (evtac, ts) \<Rightarrow>
           Inr (load_step sa0 aStep, evtac,
                if PostVolumeName aStep = ''World'' then fStopAndKill else ts))"
  by (simp add: UserSteppingAction_def before_photon_def Let_def)

lemma keeps_step:
  assumes "UserSteppingAction sa aStep ev = Inr (sa', ev', ts)"
  shows "keeps (StatsOptical ev) (StatsOptical ev')"
proof (cases "particleName (load_step sa aStep) = ''opticalphoton''")
  case True
  with assms obtain ts' where
    "photon_part (load_step sa aStep) aStep (before_photon (load_step sa aStep) ev)
       (TrackStatus aStep) = Inr (ev', ts')"
    by (auto simp: UserSteppingAction_unfold split: sum.splits)
  from keeps_photon_part [OF this] show ?thesis by simp
next
  case False
  with assms have "ev' = before_photon (load_step sa aStep) ev"
    by (auto simp: UserSteppingAction_unfold)
  then show ?thesis by (simp add: keeps_refl)
qed

lemma keeps_inv:
  assumes "keeps s s'" and "0 \<le> ScintillationSc s \<and> derived_zero s"
  shows "0 \<le> ScintillationSc s' \<and> derived_zero s'"
  using assms by (simp add: keeps_def derived_zero_def)

lemma reachable_inv:
  assumes "reachable ev"
  shows "0 \<le> ScintillationSc (StatsOptical ev) \<and> derived_zero (StatsOptical ev)"
  using assms
proof (induction rule: reachable.induct)
  case (reach_begin ev)
  show ?case
    by (simp add: BeginOfEventAction_init EventAction_init_def RunTallyOptical_init_def
          derived_zero_def)
next
  case (reach_count ev c)
  from keeps_count reach_count.IH show ?case by (rule keeps_inv)
next
  case (reach_step ev sa aStep sa' ev' ts)
  from keeps_step [OF reach_step.hyps(2)] reach_step.IH show ?case by (rule keeps_inv)
qed



section \<open>The total of generated photons\<close>









section \<open>The stepping callback\<close>

lemma load_step_config [simp]:
  "PhotonTrackStatus (load_step sa aStep) = PhotonTrackStatus sa"
  "particleName (load_step sa aStep) = ParticleName aStep"
  "stepNo (load_step sa aStep) = CurrentStepNumber aStep"
  by (simp_all add: load_step_def Let_def)







section \<open>The command line\<close>

text \<open>
  Claim C10, as amended. The program accepts \<open>program outputFileBaseName\<close> and
  \<open>program outputFileBaseName nEvents macroFile MT{ON|OFF} [threadCount]\<close>, the latter
  also with further arguments after the sixth, in which case the thread count is not
  read. Without the output-file argument it raises the fatal exception \<open>main0004\<close>, the
  statement after which returns 1; with 3 or 4 arguments it raises the fatal exception
  \<open>main0003\<close>; with 5 or more arguments, an event count that \<open>std::stoul\<close> converts and
  an MT flag that is neither \<open>ON\<close> nor \<open>OFF\<close> it raises the fatal exception \<open>main0002\<close>.
  These are the only invocations that raise a fatal exception.
\<close>

theorem main_arguments:
  "(length argv < 2 \<longrightarrow> main stoul hw argv = FatalException ''main0004'' (Return 1)) \<and>
   (length argv = 2 \<longrightarrow>
      main stoul hw argv =
        Configured \<lparr>outputFile = argv ! 1, TotalNParticles = 0, flag_MT = False,
                     Ncores = hw, runManager = G4RunManager\<rparr>) \<and>
   (length argv = 3 \<or> length argv = 4 \<longrightarrow>
      main stoul hw argv = FatalException ''main0003'' RunManagerUninitialised) \<and>
   (5 \<le> length argv \<and> stoul (argv ! 2) = None \<longrightarrow> main stoul hw argv = StoulThrows) \<and>
   (5 \<le> length argv \<and> stoul (argv ! 2) = Some n \<and> argv ! 4 \<noteq> ''ON'' \<and> argv ! 4 \<noteq> ''OFF'' \<longrightarrow>
      main stoul hw argv = FatalException ''main0002'' RunManagerUninitialised) \<and>
   (5 \<le> length argv \<and> stoul (argv ! 2) = Some n \<and> argv ! 4 = ''OFF'' \<longrightarrow>
      main stoul hw argv =
        Configured \<lparr>outputFile = argv ! 1, TotalNParticles = n, flag_MT = False,
                     Ncores = hw, runManager = G4RunManager\<rparr>) \<and>
   (5 \<le> length argv \<and> length argv \<noteq> 6 \<and> stoul (argv ! 2) = Some n \<and> argv ! 4 = ''ON'' \<longrightarrow>
      main stoul hw argv =
        Configured \<lparr>outputFile = argv ! 1, TotalNParticles = n, flag_MT = True,
                     Ncores = hw, runManager = G4MTRunManager hw\<rparr>) \<and>
   (length argv = 6 \<and> stoul (argv ! 2) = Some n \<and> argv ! 4 = ''ON'' \<longrightarrow>
      main stoul hw argv =
        (case stoul (argv ! 5) of
           None \<Rightarrow> StoulThrows
         | Some k \<Rightarrow> Configured \<lparr>outputFile = argv ! 1, TotalNParticles = n, flag_MT = True,
                                  Ncores = k, runManager = G4MTRunManager k\<rparr>)) \<and>
   (fatal (main stoul hw argv) \<longleftrightarrow>
      length argv < 2 \<or> length argv = 3 \<or> length argv = 4 \<or>
      (5 \<le> length argv \<and> stoul (argv ! 2) \<noteq> None \<and> argv ! 4 \<noteq> ''ON'' \<and> argv ! 4 \<noteq> ''OFF''))"
  by (auto simp: main_def Let_def split: option.splits)

theorem main_arguments_witness:
  "main stoul_digits 8 [''OpticalSimulation''] = FatalException ''main0004'' (Return 1) \<and>
   main stoul_digits 8 [''OpticalSimulation'', ''out'', ''10'']
     = FatalException ''main0003'' RunManagerUninitialised \<and>
   main stoul_digits 8 [''OpticalSimulation'', ''out'', ''10'', ''run.mac'', ''MAYBE'']
     = FatalException ''main0002'' RunManagerUninitialised \<and>
   main stoul_digits 8 [''OpticalSimulation'', ''out'', ''10'', ''run.mac'', ''ON'', ''4'']
     = Configured \<lparr>outputFile = ''out'', TotalNParticles = 10, flag_MT = True,
                    Ncores = 4, runManager = G4MTRunManager 4\<rparr>"
proof -
  have d: "stoul_digits ''10'' = Some 10" "stoul_digits ''4'' = Some 4"
    by (simp_all add: stoul_digits_def is_digit_def)
  from main_arguments [of "[''OpticalSimulation'']" stoul_digits 8]
       main_arguments [of "[''OpticalSimulation'', ''out'', ''10'']" stoul_digits 8]
       main_arguments [of "[''OpticalSimulation'', ''out'', ''10'', ''run.mac'', ''MAYBE'']"
                          stoul_digits 8 10]
       main_arguments [of "[''OpticalSimulation'', ''out'', ''10'', ''run.mac'', ''ON'', ''4'']"
                          stoul_digits 8 10]
  show ?thesis by (simp add: d)
qed

text \<open>
  The statement of claim C10 fails for an invocation with seven arguments, a count the
  usage line does not allow: no fatal exception is raised and the run is configured
  with the default number of threads.
\<close>

theorem surplus_arguments_accepted:
  "length [''OpticalSimulation'', ''out'', ''10'', ''run.mac'', ''ON'', ''4'', ''extra''] = 7 \<and>
   main stoul_digits 8 [''OpticalSimulation'', ''out'', ''10'', ''run.mac'', ''ON'', ''4'', ''extra'']
     = Configured \<lparr>outputFile = ''out'', TotalNParticles = 10, flag_MT = True,
                    Ncores = 8, runManager = G4MTRunManager 8\<rparr> \<and>
   \<not> fatal (main stoul_digits 8
              [''OpticalSimulation'', ''out'', ''10'', ''run.mac'', ''ON'', ''4'', ''extra''])"
  by (simp add: main_def Let_def stoul_digits_def is_digit_def)


section \<open>The scintillation counter as a machine integer\<close>

text \<open>
  A call changes \<open>ScintillationSc\<close> by at most one, so after \<open>n\<close> calls since the reset it
  lies between 0 and \<open>n\<close>. In an event of fewer than \<open>2^31\<close> calls the counter that the
  guard of the derivation block reads therefore stays inside the range of a 32-bit
  \<open>G4int\<close>, where the integers of this theory and the machine agree.
\<close>

lemma sc_check:
  assumes "CheckBoundaryStatus sa aStep ev = Inr ev'"
  shows "ScintillationSc (StatsOptical ev') = ScintillationSc (StatsOptical ev)"
proof -
  from assms obtain b where b: "find_boundary (ProcessList aStep) = Some b"
    by (rule CheckBoundaryStatus_returns)
  from assms have "ev' = projr (CheckBoundaryStatus sa aStep ev)" by simp
  then show ?thesis
    unfolding CheckBoundaryStatus_found [OF b]
    by (cases b) (simp_all add: Let_def count_defs fill_defs)
qed

lemma sc_photon_part:
  assumes "photon_part sa aStep ev ts = Inr (ev', ts')"
  shows "ScintillationSc (StatsOptical ev') \<le> ScintillationSc (StatsOptical ev) + 1"
proof -
  obtain ev1 ts1 where first:
    "(if PhotonTrackStatus sa = False then Inr (CountKilled ev, fStopAndKill)
      else (case CheckBoundaryStatus sa aStep ev of Inl f \<Rightarrow> Inl f | Inr evtac \<Rightarrow> Inr (evtac, ts)))
     = Inr (ev1, ts1)"
    using assms by (auto simp: photon_part_def split: sum.splits if_splits)
  have k1: "ScintillationSc (StatsOptical ev1) = ScintillationSc (StatsOptical ev)"
    using first sc_check [of sa aStep ev]
    by (auto simp: count_defs split: if_splits sum.splits)
  have rest: "(if stepNo sa = 1
           then (let evtac = SetPhotonBirthInformation sa aStep ev1
                 in case CreatorProcess aStep of
                      None \<Rightarrow> Inl NullPointer
                    | Some creator \<Rightarrow>
                        let evtac = (if creator = ''Scintillation''
                                     then CountScintillation aStep evtac else evtac);
                            evtac = (if creator = ''Cerenkov''
                                     then CountCerenkov aStep evtac else evtac)
                        in Inr (evtac, ts1))
           else Inr (ev1, ts1)) = Inr (ev', ts')"
    using assms first unfolding photon_part_def by simp
  have "ScintillationSc (StatsOptical ev') \<le> ScintillationSc (StatsOptical ev1) + 1"
  proof (cases "stepNo sa = 1")
    case False
    with rest show ?thesis by simp
  next
    case True
    with rest obtain creator where c: "CreatorProcess aStep = Some creator"
      by (cases "CreatorProcess aStep") (simp_all add: Let_def)
    from rest True c show ?thesis
      by (auto simp: Let_def SetPhotonBirthInformation_def CountScintillation_def
            CountCerenkov_def count_defs fill_defs split: if_splits)
  qed
  with k1 show ?thesis by simp
qed

lemma sc_step:
  assumes "UserSteppingAction sa aStep ev = Inr (sa', ev', ts)"
  shows "ScintillationSc (StatsOptical ev') \<le> ScintillationSc (StatsOptical ev) + 1"
proof (cases "particleName (load_step sa aStep) = ''opticalphoton''")
  case True
  with assms obtain ts' where
    "photon_part (load_step sa aStep) aStep (before_photon (load_step sa aStep) ev)
       (TrackStatus aStep) = Inr (ev', ts')"
    by (auto simp: UserSteppingAction_unfold split: sum.splits)
  from sc_photon_part [OF this] show ?thesis by simp
next
  case False
  with assms have "ev' = before_photon (load_step sa aStep) ev"
    by (auto simp: UserSteppingAction_unfold)
  then show ?thesis by simp
qed

lemma sc_count:
  "ScintillationSc (StatsOptical (count c ev)) \<le> ScintillationSc (StatsOptical ev) + 1"
  by (cases c) (simp_all add: count_defs)

lemma reachable_within_reachable: "reachable_within n ev \<Longrightarrow> reachable ev"
  by (induction rule: reachable_within.induct) (auto intro: reachable.intros)

lemma reachable_within_bound:
  assumes "reachable_within n ev"
  shows "ScintillationSc (StatsOptical ev) \<le> int n"
  using assms
proof (induction rule: reachable_within.induct)
  case (within_begin ev)
  show ?case
    by (simp add: BeginOfEventAction_init EventAction_init_def RunTallyOptical_init_def)
next
  case (within_count n ev c)
  with sc_count [of c ev] show ?case by simp
next
  case (within_step n ev sa aStep sa' ev' ts)
  with sc_step [OF within_step.hyps(2)] show ?case by simp
qed

lemma reachable_within_int32:
  assumes "reachable_within n ev" and "n < 2 ^ 31"
  shows "0 \<le> ScintillationSc (StatsOptical ev) \<and> ScintillationSc (StatsOptical ev) < 2 ^ 31"
proof -
  from reachable_within_bound [OF assms(1)] assms(2)
  have "ScintillationSc (StatsOptical ev) < 2 ^ 31" by simp
  with reachable_inv [OF reachable_within_reachable [OF assms(1)]] show ?thesis by simp
qed

end
